theory Spec2Isabelle
  imports Complex_Main "HOL-Library.AList"
begin

unbundle bit_operations_syntax

section \<open>JSON values and the JavaScript operations the program applies to them\<close>

text \<open>
  A config file is parsed with \<^verbatim>\<open>JSON.parse\<close>, so every value the program handles is
  what \<^verbatim>\<open>JSON.parse\<close> can yield. An object is an association list in property order;
  \<^verbatim>\<open>JSON.parse\<close> never yields one key twice. A finite number is carried as a
  rational, the program only tests numbers for truthiness; a literal too large for a
  double, such as \<^verbatim>\<open>1e400\<close>, parses to an infinity, and \<^verbatim>\<open>-0\<close> to minus zero. A
  string is a list of code units.
\<close>

datatype json =
    JNull
  | JBool bool
  | JNum rat
  | JMinusZero
  | JInfinity
  | JMinusInfinity
  | JStr string
  | JArr "json list"
  | JObj "(string \<times> json) list"

text \<open>Errors the program can throw.\<close>

datatype error =
    TypeError        \<comment> \<open>property read on \<^verbatim>\<open>null\<close> or \<^verbatim>\<open>undefined\<close>\<close>
  | WriteError       \<comment> \<open>\<^verbatim>\<open>fs.mkdirSync\<close> / \<^verbatim>\<open>fs.writeFileSync\<close> failed\<close>
  | ExecError        \<comment> \<open>\<^verbatim>\<open>execSync\<close>: the command exited non-zero\<close>
  | ExitPromptError  \<comment> \<open>a prompt was closed without an answer\<close>

text \<open>JavaScript truthiness (\<^verbatim>\<open>||\<close>, \<^verbatim>\<open>if (v)\<close>, \<^verbatim>\<open>!v\<close>) of a JSON value.\<close>

fun truthy :: "json \<Rightarrow> bool" where
  "truthy JNull = False"
| "truthy (JBool b) = b"
| "truthy (JNum n) = (n \<noteq> 0)"
| "truthy JMinusZero = False"
| "truthy JInfinity = True"
| "truthy JMinusInfinity = True"
| "truthy (JStr s) = (s \<noteq> [])"
| "truthy (JArr xs) = True"
| "truthy (JObj kvs) = True"

text \<open>The decimal spelling of an array index, as a property key.\<close>

definition digit_char :: "nat \<Rightarrow> char" where
  "digit_char d = ''0123456789'' ! d"

function index_key :: "nat \<Rightarrow> string" where
  "index_key n = (if n < 10 then [digit_char n] else index_key (n div 10) @ [digit_char (n mod 10)])"
  by pat_completeness auto
termination
  by (relation "measure id") auto

declare index_key.simps [simp del]

text \<open>
  The own enumerable properties of a value, in enumeration order: what an object spread
  \<^verbatim>\<open>{...v}\<close> copies and what \<^verbatim>\<open>v[k]\<close> reads for the keys this program uses (none of
  them is \<^verbatim>\<open>length\<close> or an inherited property). An array and a string expose their
  elements under the index keys; a number, a boolean and \<^verbatim>\<open>null\<close> expose nothing.
\<close>

fun own_props :: "json \<Rightarrow> (string \<times> json) list" where
  "own_props (JObj kvs) = kvs"
| "own_props (JArr xs) = zip (map index_key [0..<length xs]) xs"
| "own_props (JStr s) = zip (map index_key [0..<length s]) (map (\<lambda>c. JStr [c]) s)"
| "own_props (JNum n) = []"
| "own_props JMinusZero = []"
| "own_props JInfinity = []"
| "own_props JMinusInfinity = []"
| "own_props (JBool b) = []"
| "own_props JNull = []"

text \<open>
  \<^verbatim>\<open>v.k\<close>: a property read. \<open>None\<close> is \<^verbatim>\<open>undefined\<close>; reading a property of
  \<^verbatim>\<open>null\<close> throws.
\<close>

definition get_prop :: "json \<Rightarrow> string \<Rightarrow> error + json option" where
  "get_prop v k = (case v of JNull \<Rightarrow> Inl TypeError | _ \<Rightarrow> Inr (map_of (own_props v) k))"

text \<open>\<^verbatim>\<open>v?.k\<close>: optional chaining gives \<^verbatim>\<open>undefined\<close> on \<^verbatim>\<open>null\<close> and \<^verbatim>\<open>undefined\<close>.\<close>

fun opt_prop :: "json option \<Rightarrow> string \<Rightarrow> json option" where
  "opt_prop None k = None"
| "opt_prop (Some JNull) k = None"
| "opt_prop (Some v) k = map_of (own_props v) k"

section \<open>Install methods (\<^verbatim>\<open>steps/installMethod.ts\<close>)\<close>

text \<open>
  \<^verbatim>\<open>type InstallMethod = { type: 'npx' } | { type: 'local'; path: string }\<close>.
  The path is declared a string; \<^verbatim>\<open>detectInstallMethodFromConfig\<close> fills it with
  whatever \<^verbatim>\<open>args[0]\<close> holds (the cast \<^verbatim>\<open>as string[]\<close> checks nothing), so the model
  carries a JSON value. A path chosen by \<^verbatim>\<open>selectInstallMethod\<close> is \<open>JStr p\<close>.
\<close>

datatype InstallMethod = Npx | Local json

section \<open>Config utilities (\<^verbatim>\<open>utils/config.ts\<close>)\<close>

definition getServerCommand :: "InstallMethod \<Rightarrow> string \<times> json list" where
  "getServerCommand method =
     (case method of
        Local p \<Rightarrow> (''node'', [p])
      | Npx \<Rightarrow> (''npx'', [JStr ''-y'', JStr ''figma-console-mcp@latest'']))"

text \<open>The entry written under the reserved key (the inner object literal of the merge).\<close>

definition serverEntry :: "json \<Rightarrow> InstallMethod \<Rightarrow> json" where
  "serverEntry token method =
     (case getServerCommand method of
        (command, args) \<Rightarrow>
          JObj [(''command'', JStr command),
                (''args'', JArr args),
                (''env'', JObj [(''FIGMA_ACCESS_TOKEN'', token),
                               (''ENABLE_MCP_APPS'', JStr ''true'')])])"

text \<open>
  \<^verbatim>\<open>mergeServerConfig(existing, token, method)\<close>. \<^verbatim>\<open>existing.mcpServers || {}\<close> is the
  collection when it is truthy and the empty object otherwise; the two spreads copy own
  properties, and a key named after a spread overwrites in place or is appended.
  The token is a string when prompted for and any JSON value when reused from a scan.
\<close>

definition mergeServerConfig :: "json \<Rightarrow> json \<Rightarrow> InstallMethod \<Rightarrow> error + json" where
  "mergeServerConfig existing token method =
     (case get_prop existing ''mcpServers'' of
        Inl e \<Rightarrow> Inl e
      | Inr v \<Rightarrow>
          (let mcpServers = (case v of None \<Rightarrow> JObj []
                             | Some u \<Rightarrow> if truthy u then u else JObj [])
           in Inr (JObj (AList.update ''mcpServers''
                          (JObj (AList.update ''figma-console'' (serverEntry token method)
                                   (own_props mcpServers)))
                          (own_props existing)))))"

text \<open>
  The body of \<^verbatim>\<open>detectInstallMethodFromConfig\<close> after the file is read.
  \<^verbatim>\<open>figmaConsole.args\<close> is read only when \<^verbatim>\<open>figmaConsole?.command === 'node'\<close>, so
  \<^verbatim>\<open>figmaConsole\<close> is neither \<^verbatim>\<open>null\<close> nor \<^verbatim>\<open>undefined\<close> there.
\<close>

definition detectInstallMethodFrom :: "json \<Rightarrow> error + InstallMethod" where
  "detectInstallMethodFrom config =
     (case get_prop config ''mcpServers'' of
        Inl e \<Rightarrow> Inl e
      | Inr mcpServers \<Rightarrow>
          (let figmaConsole = opt_prop mcpServers ''figma-console'' in
           if opt_prop figmaConsole ''command'' = Some (JStr ''node'') then
             (let args = opt_prop figmaConsole ''args'' in
              case opt_prop args (index_key 0) of
                Some a \<Rightarrow> if truthy a then Inr (Local a) else Inr Npx
              | None \<Rightarrow> Inr Npx)
           else Inr Npx))"

section \<open>The environment\<close>

text \<open>
  The text of a file either makes \<^verbatim>\<open>JSON.parse\<close> throw or parses to a value.
\<close>

datatype file_text = Unparsable | Parsed json

text \<open>
  What \<^verbatim>\<open>JSON.parse\<close> reads back from the text that \<^verbatim>\<open>JSON.stringify\<close> writes for a
  value: an infinity is written as \<^verbatim>\<open>null\<close> and minus zero as \<^verbatim>\<open>0\<close>, inside arrays
  and objects too; everything else is read back as it was.
\<close>

primrec reparse :: "json \<Rightarrow> json" where
  "reparse JNull = JNull"
| "reparse (JBool b) = JBool b"
| "reparse (JNum n) = JNum n"
| "reparse JMinusZero = JNum 0"
| "reparse JInfinity = JNull"
| "reparse JMinusInfinity = JNull"
| "reparse (JStr s) = JStr s"
| "reparse (JArr xs) = JArr (map reparse xs)"
| "reparse (JObj kvs) = JObj (map (map_prod id reparse) kvs)"

datatype answer = Retry | Skip

text \<open>One line of console output of a batch operation.\<close>

datatype report =
    Done string            \<comment> \<open>the line \<^verbatim>\<open>name configured\<close>, \<^verbatim>\<open>updated\<close> or \<^verbatim>\<open>removed\<close>\<close>
  | Failed string error    \<comment> \<open>the line \<^verbatim>\<open>name failed: message\<close>\<close>
  | NoneSelected           \<comment> \<open>\<^verbatim>\<open>No clients selected.\<close>\<close>

text \<open>
  Everything outside the process that the program reads or changes: the file system, the
  \<^verbatim>\<open>claude\<close> command-line tool with its own store of registered servers, the successive
  answers of the process listing, the operator's answers to the retry-or-skip prompt,
  the three platform-dependent config paths, and the console. \<open>numeric_le9 s\<close> says
  whether the runtime's conversion of the string \<open>s\<close> to a number gives at most 9
  (\<^verbatim>\<open>s <= 9\<close>); that conversion is a primitive of the language and is not modelled.
\<close>

record world =
  files :: "string \<Rightarrow> file_text option"
  write_fails :: "string \<Rightarrow> bool"
  claude_installed :: bool
  claude_fails :: bool
  claude_mcp :: "string list"
  claude_running :: "bool list"
  answers :: "answer list"
  claudeDesktopPath :: string
  cursorPath :: string
  windsurfPath :: string
  numeric_le9 :: "string \<Rightarrow> bool"
  console :: "report list"


subsection \<open>\<^verbatim>\<open>readJsonConfig\<close>, \<^verbatim>\<open>writeJsonConfig\<close>, \<^verbatim>\<open>detectInstallMethodFromConfig\<close>\<close>

text \<open>The \<^verbatim>\<open>catch\<close> covers the missing file and the parse error alike.\<close>

definition readJsonConfig :: "world \<Rightarrow> string \<Rightarrow> json" where
  "readJsonConfig w filePath =
     (case files w filePath of
        None \<Rightarrow> JObj []
      | Some Unparsable \<Rightarrow> JObj []
      | Some (Parsed v) \<Rightarrow> v)"

text \<open>
  Creating the directory and writing the file throw where \<open>write_fails\<close> says so. The
  file then holds the text \<^verbatim>\<open>JSON.stringify(data, null, 2)\<close>, which parses to
  \<open>reparse data\<close>.
\<close>

definition writeJsonConfig :: "string \<Rightarrow> json \<Rightarrow> world \<Rightarrow> error + world" where
  "writeJsonConfig filePath data w =
     (if write_fails w filePath then Inl WriteError
      else Inr (w\<lparr>files := (files w)(filePath \<mapsto> Parsed (reparse data))\<rparr>))"

definition detectInstallMethodFromConfig :: "world \<Rightarrow> string \<Rightarrow> error + InstallMethod" where
  "detectInstallMethodFromConfig w configPath = detectInstallMethodFrom (readJsonConfig w configPath)"

section \<open>Configuring one client (\<^verbatim>\<open>steps/configure.ts\<close>)\<close>

text \<open>\<^verbatim>\<open>output.includes(needle)\<close>.\<close>

fun str_includes :: "string \<Rightarrow> string \<Rightarrow> bool" where
  "str_includes [] needle = (needle = [])"
| "str_includes (c # cs) needle = (take (length needle) (c # cs) = needle \<or> str_includes cs needle)"

text \<open>
  The \<^verbatim>\<open>claude mcp\<close> commands. The tool is not part of the repository; it is taken to
  exit non-zero when it is not installed, when \<open>claude_fails\<close> says so, and when asked
  to remove a name it does not hold, and to list the registered names one per line.
\<close>

definition claude_down :: "world \<Rightarrow> bool" where
  "claude_down w = (\<not> claude_installed w \<or> claude_fails w)"

definition claude_mcp_list :: "world \<Rightarrow> error + string" where
  "claude_mcp_list w =
     (if claude_down w then Inl ExecError
      else Inr (concat (map (\<lambda>n. n @ [CHR 0x0A]) (claude_mcp w))))"

definition claude_mcp_remove :: "world \<Rightarrow> error + world" where
  "claude_mcp_remove w =
     (if claude_down w \<or> ''figma-console'' \<notin> set (claude_mcp w) then Inl ExecError
      else Inr (w\<lparr>claude_mcp := removeAll ''figma-console'' (claude_mcp w)\<rparr>))"


definition isFigmaConsoleConfigured :: "world \<Rightarrow> bool" where
  "isFigmaConsoleConfigured w =
     (case claude_mcp_list w of Inl e \<Rightarrow> False | Inr output \<Rightarrow> str_includes output ''figma-console'')"




section \<open>Known clients (\<^verbatim>\<open>steps/clientDetect.ts\<close>)\<close>

record Client =
  name :: string
  ident :: string                \<comment> \<open>the field \<^verbatim>\<open>id\<close>\<close>
  configPath :: "string option"  \<comment> \<open>\<open>None\<close> is \<^verbatim>\<open>null\<close>: Claude Code uses its CLI\<close>
  detected :: bool



text \<open>Truthiness of \<^verbatim>\<open>client.configPath\<close>: neither \<^verbatim>\<open>null\<close> nor the empty string.\<close>

definition hasConfigPath :: "Client \<Rightarrow> bool" where
  "hasConfigPath c = (case configPath c of None \<Rightarrow> False | Some p \<Rightarrow> p \<noteq> [])"

section \<open>The reconciliation engine (\<^verbatim>\<open>steps/doctor.ts\<close>)\<close>

record ScanResult =
  client :: Client
  configured :: bool
  token :: json          \<comment> \<open>\<open>JNull\<close> is \<^verbatim>\<open>null\<close>\<close>

text \<open>The callback of the \<^verbatim>\<open>map\<close> in \<^verbatim>\<open>scanClients\<close>.\<close>

definition scanClient :: "world \<Rightarrow> Client \<Rightarrow> error + ScanResult" where
  "scanClient w c =
     (if ident c = ''claude-code'' then
        Inr \<lparr>client = c, configured = (detected c \<and> isFigmaConsoleConfigured w), token = JNull\<rparr>
      else if \<not> detected c \<or> \<not> hasConfigPath c then
        Inr \<lparr>client = c, configured = False, token = JNull\<rparr>
      else
        (case get_prop (readJsonConfig w (the (configPath c))) ''mcpServers'' of
           Inl e \<Rightarrow> Inl e
         | Inr mcpServers \<Rightarrow>
             (case opt_prop mcpServers ''figma-console'' of
                None \<Rightarrow> Inr \<lparr>client = c, configured = False, token = JNull\<rparr>
              | Some figmaConsole \<Rightarrow>
                  if \<not> truthy figmaConsole then
                    Inr \<lparr>client = c, configured = False, token = JNull\<rparr>
                  else
                    Inr \<lparr>client = c, configured = True,
                         token = (case opt_prop (opt_prop (Some figmaConsole) ''env'')
                                         ''FIGMA_ACCESS_TOKEN'' of
                                    None \<Rightarrow> JNull | Some t \<Rightarrow> t)\<rparr>)))"







subsection \<open>\<^verbatim>\<open>updateToken\<close>\<close>




subsection \<open>\<^verbatim>\<open>removeIntegrations\<close>\<close>

text \<open>
  What the four statements between reading and writing the config leave to be written:
  \<^verbatim>\<open>config.mcpServers ?? {}\<close>, \<^verbatim>\<open>delete\<close> of the reserved key, and the assignment back.
  The assignment throws on a config that is a string, number or boolean (module code is
  strict); on an array it sets a property that \<^verbatim>\<open>JSON.stringify\<close> does not write.
\<close>

definition removeReservedEntry :: "json \<Rightarrow> error + json" where
  "removeReservedEntry config =
     (case get_prop config ''mcpServers'' of
        Inl e \<Rightarrow> Inl e
      | Inr v \<Rightarrow>
          (let mcpServers =
                 (case v of
                    None \<Rightarrow> JObj []
                  | Some JNull \<Rightarrow> JObj []
                  | Some (JObj ms) \<Rightarrow> JObj (AList.delete ''figma-console'' ms)
                  | Some u \<Rightarrow> u)
           in case config of
                JObj kvs \<Rightarrow> Inr (JObj (AList.update ''mcpServers'' mcpServers kvs))
              | JArr xs \<Rightarrow> Inr (JArr xs)
              | _ \<Rightarrow> Inl TypeError))"

definition removeOne :: "string \<Rightarrow> Client \<Rightarrow> world \<Rightarrow> error option \<times> world" where
  "removeOne i c w =
     (if i = ''claude-code'' then
        (case claude_mcp_remove w of Inl e \<Rightarrow> (Some e, w) | Inr w' \<Rightarrow> (None, w'))
      else if hasConfigPath c then
        (case removeReservedEntry (readJsonConfig w (the (configPath c))) of
           Inl e \<Rightarrow> (Some e, w)
         | Inr config \<Rightarrow>
             (case writeJsonConfig (the (configPath c)) config w of
                Inl e \<Rightarrow> (Some e, w)
              | Inr w' \<Rightarrow> (None, w')))
      else (None, w))"



subsection \<open>\<^verbatim>\<open>addIntegrations\<close>\<close>







section \<open>Notions used in the statements\<close>

text \<open>What the claims call the entries under the parent collection key of a config.\<close>

definition parent_entries :: "(string \<times> json) list \<Rightarrow> (string \<times> json) list" where
  "parent_entries x = (case map_of x ''mcpServers'' of None \<Rightarrow> [] | Some u \<Rightarrow> own_props u)"

text \<open>The reserved entry of a config that is not \<^verbatim>\<open>null\<close>: \<^verbatim>\<open>config.mcpServers?.['figma-console']\<close>.\<close>

definition reservedEntry :: "json \<Rightarrow> json option" where
  "reservedEntry config = opt_prop (opt_prop (Some config) ''mcpServers'') ''figma-console''"

text \<open>The round trip of the claims: infer the method from what the merge produced.\<close>

definition inferAfterMerge :: "(string \<times> json) list \<Rightarrow> json \<Rightarrow> InstallMethod \<Rightarrow> error + InstallMethod" where
  "inferAfterMerge x t m =
     (case mergeServerConfig (JObj x) t m of
        Inl e \<Rightarrow> Inl e
      | Inr y \<Rightarrow> detectInstallMethodFrom y)"

text \<open>An environment with no files, no command-line tool and nothing printed.\<close>

definition world0 :: world where
  "world0 = \<lparr>files = Map.empty, write_fails = (\<lambda>p. False), claude_installed = False,
              claude_fails = False, claude_mcp = [], claude_running = [], answers = [],
              claudeDesktopPath = ''/home/u/.config/Claude/claude_desktop_config.json'',
              cursorPath = ''/home/u/.cursor/mcp.json'',
              windsurfPath = ''/home/u/.codeium/windsurf/mcp_config.json'',
              numeric_le9 = (\<lambda>s. False), console = []\<rparr>"

text \<open>
  The Cursor client with its config file holding a given value, the same environment
  with every write failing, and what removing from that client gives: the error, if
  any, and what the config file reads as afterwards.
\<close>

definition cursor_client :: Client where
  "cursor_client =
     \<lparr>name = ''Cursor'', ident = ''cursor'',
      configPath = Some ''/home/u/.cursor/mcp.json'', detected = True\<rparr>"

definition cursor_holding :: "json \<Rightarrow> world" where
  "cursor_holding v = world0\<lparr>files := [cursorPath world0 \<mapsto> Parsed v]\<rparr>"

definition unwritable :: "world \<Rightarrow> world" where
  "unwritable w = w\<lparr>write_fails := (\<lambda>p. True)\<rparr>"

definition removed :: "world \<Rightarrow> error option \<times> json" where
  "removed w =
     (fst (removeOne ''cursor'' cursor_client w),
      readJsonConfig (snd (removeOne ''cursor'' cursor_client w)) (cursorPath w))"

subsection \<open>Reading the batch loops\<close>













section \<open>The bridge verifier (\<^verbatim>\<open>steps/healthCheck.ts\<close>)\<close>

subsection \<open>The accept token\<close>

text \<open>
  \<^verbatim>\<open>createHash('sha1').update(s).digest('base64')\<close> is Node's library: SHA-1 (FIPS 180-4)
  of the UTF-8 bytes of the string, then base64 with padding. Bytes and 32-bit words are
  integers, with the wrap-around modulo \<open>2 ^ 32\<close> written out. A code unit below 128 is
  one byte and one from 128 to 255 is two.
\<close>

definition utf8 :: "string \<Rightarrow> int list" where
  "utf8 s = concat (map (\<lambda>c. if of_char c < (128::int) then [of_char c]
                               else [192 + of_char c div 64, 128 + of_char c mod 64]) s)"

definition add32 :: "int \<Rightarrow> int \<Rightarrow> int" where
  "add32 x y = (x + y) mod 4294967296"

definition rotl :: "nat \<Rightarrow> int \<Rightarrow> int" where
  "rotl n w = (w * 2 ^ n) mod 4294967296 + w div 2 ^ (32 - n)"

definition not32 :: "int \<Rightarrow> int" where
  "not32 w = 4294967295 - w"

definition be32 :: "int list \<Rightarrow> int" where
  "be32 bs = foldl (\<lambda>acc b. acc * 256 + b) 0 bs"

fun chunks :: "nat \<Rightarrow> 'a list \<Rightarrow> 'a list list" where
  "chunks n [] = []"
| "chunks n (x # xs) = (if n = 0 then [] else take n (x # xs) # chunks n (drop n (x # xs)))"

fun be_bytes :: "nat \<Rightarrow> int \<Rightarrow> int list" where
  "be_bytes 0 n = []"
| "be_bytes (Suc k) n = be_bytes k (n div 256) @ [n mod 256]"

definition sha1_pad :: "int list \<Rightarrow> int list" where
  "sha1_pad m =
     m @ [128] @ replicate ((119 - length m mod 64) mod 64) 0 @ be_bytes 8 (8 * int (length m))"

text \<open>The message schedule, latest word first while it is extended.\<close>

fun sched :: "nat \<Rightarrow> int list \<Rightarrow> int list" where
  "sched 0 rs = rs"
| "sched (Suc n) rs = sched n (rotl 1 (rs ! 2 XOR rs ! 7 XOR rs ! 13 XOR rs ! 15) # rs)"

definition schedule :: "int list \<Rightarrow> int list" where
  "schedule block = rev (sched 64 (rev (map be32 (chunks 4 block))))"

definition sha1_f :: "nat \<Rightarrow> int \<Rightarrow> int \<Rightarrow> int \<Rightarrow> int" where
  "sha1_f t b c d =
     (if t < 20 then (b AND c) OR (not32 b AND d)
      else if t < 40 then b XOR c XOR d
      else if t < 60 then (b AND c) OR (b AND d) OR (c AND d)
      else b XOR c XOR d)"

definition sha1_k :: "nat \<Rightarrow> int" where
  "sha1_k t = (if t < 20 then 0x5A827999 else if t < 40 then 0x6ED9EBA1
               else if t < 60 then 0x8F1BBCDC else 0xCA62C1D6)"

type_synonym sha1_state = "int \<times> int \<times> int \<times> int \<times> int"

fun sha1_rounds :: "nat \<Rightarrow> sha1_state \<Rightarrow> int list \<Rightarrow> sha1_state" where
  "sha1_rounds t s [] = s"
| "sha1_rounds t (a, b, c, d, e) (w # ws) =
     sha1_rounds (Suc t)
       (add32 (add32 (add32 (add32 (rotl 5 a) (sha1_f t b c d)) e) (sha1_k t)) w,
        a, rotl 30 b, c, d) ws"

fun sha1_block :: "sha1_state \<Rightarrow> int list \<Rightarrow> sha1_state" where
  "sha1_block (h0, h1, h2, h3, h4) block =
     (case sha1_rounds 0 (h0, h1, h2, h3, h4) (schedule block) of
        (a, b, c, d, e) \<Rightarrow> (add32 h0 a, add32 h1 b, add32 h2 c, add32 h3 d, add32 h4 e))"

definition sha1 :: "int list \<Rightarrow> int list" where
  "sha1 m =
     (case foldl sha1_block (0x67452301, 0xEFCDAB89, 0x98BADCFE, 0x10325476, 0xC3D2E1F0)
             (chunks 64 (sha1_pad m)) of
        (h0, h1, h2, h3, h4) \<Rightarrow> concat (map (be_bytes 4) [h0, h1, h2, h3, h4]))"

definition b64_char :: "int \<Rightarrow> char" where
  "b64_char n =
     ''ABCDEFGHIJKLMNOPQRSTUVWXYZabcdefghijklmnopqrstuvwxyz0123456789+/'' ! nat (n mod 64)"

fun base64 :: "int list \<Rightarrow> string" where
  "base64 [] = []"
| "base64 [a] =
     [b64_char (a div 4), b64_char (a * 16), CHR ''='', CHR ''='']"
| "base64 [a, b] =
     [b64_char (a div 4), b64_char (a * 16 + b div 16), b64_char (b * 4), CHR ''='']"
| "base64 (a # b # c # rest) =
     [b64_char (a div 4), b64_char (a * 16 + b div 16), b64_char (b * 4 + c div 64), b64_char c]
     @ base64 rest"

text \<open>The hash-and-encode chain of the upgrade handler, for any constant appended.\<close>

definition sha1_base64 :: "string \<Rightarrow> string" where
  "sha1_base64 s = base64 (sha1 (utf8 s))"

text \<open>The \<^verbatim>\<open>accept\<close> of the upgrade handler, with the constant the source appends.\<close>

definition accept :: "string \<Rightarrow> string" where
  "accept key = sha1_base64 (key @ ''258EAFA5-E914-47DA-95CA-5AB5E34B13E5'')"

text \<open>
  The globally unique identifier that the WebSocket protocol (RFC 6455, section 1.3)
  has the server append to the key, and the accept value the RFC gives for its sample
  key \<^verbatim>\<open>dGhlIHNhbXBsZSBub25jZQ==\<close>.
\<close>

definition rfc6455_guid :: string where
  "rfc6455_guid = ''258EAFA5-E914-47DA-95CA-C5AB0DC85B11''"

definition rfc6455_sample_key :: string where
  "rfc6455_sample_key = ''dGhlIHNhbXBsZSBub25jZQ==''"

definition rfc6455_sample_accept :: string where
  "rfc6455_sample_accept = ''s3pPLMBiTxaQ9kYGzzhZRbK+xOo=''"

definition crlf :: string where
  "crlf = [CHR 0x0D, CHR 0x0A]"

text \<open>What the handler writes to the socket for a key that is a string.\<close>

definition upgradeResponse :: "string \<Rightarrow> string" where
  "upgradeResponse key =
     ''HTTP/1.1 101 Switching Protocols'' @ crlf @
     ''Upgrade: websocket'' @ crlf @
     ''Connection: Upgrade'' @ crlf @
     ''Sec-WebSocket-Accept: '' @ accept key @ crlf @
     crlf"

subsection \<open>Choosing the port\<close>

definition BRIDGE_PORTS :: "nat list" where
  "BRIDGE_PORTS = [9223, 9224, 9225, 9226, 9227, 9228, 9229, 9230, 9231, 9232]"

text \<open>
  The loop over the candidate ports: \<^verbatim>\<open>tryListen\<close> answers whether the server could
  listen on the port (\<open>can_listen\<close>, a fact of the environment), and the loop stops at
  the first port where it could.
\<close>

fun firstBound :: "(nat \<Rightarrow> bool) \<Rightarrow> nat list \<Rightarrow> nat option" where
  "firstBound can_listen [] = None"
| "firstBound can_listen (port # ports) =
     (if can_listen port then Some port else firstBound can_listen ports)"

subsection \<open>The wait\<close>

datatype BridgeResult = Connected | Timeout | Cancelled

text \<open>
  What the promise executor of \<^verbatim>\<open>waitForBridgeWithCancel\<close> owns: the listening server
  with the number of connections it has accepted and that are still open, the flag
  \<^verbatim>\<open>resolved\<close>, the spinner interval with its frame counter, the timeout, the state of
  standard input, the listeners it has attached, the value the promise has been
  resolved with, and what has been written to upgrade sockets.
\<close>

record bridge =
  port :: nat
  listening :: bool
  accepted :: nat
  resolved :: bool
  spinner_on :: bool
  frame :: nat
  timer_armed :: bool
  is_tty :: bool
  stdin_raw :: bool
  stdin_flowing :: bool
  data_listener :: bool
  exit_listener :: bool
  close_listener :: bool
  close_pending :: bool
  settled :: "BridgeResult option"
  sent :: "string list"

text \<open>
  The state when the executor has run: the spinner and the timeout are started, and,
  only when standard input is a terminal, raw mode is on, input flows and the three
  listeners (\<^verbatim>\<open>exit\<close>, \<^verbatim>\<open>data\<close>, \<^verbatim>\<open>close\<close>) are attached.
\<close>

definition armed :: "bool \<Rightarrow> nat \<Rightarrow> bridge" where
  "armed tty p =
     \<lparr>port = p, listening = True, accepted = 0, resolved = False, spinner_on = True, frame = 0,
      timer_armed = True, is_tty = tty, stdin_raw = tty, stdin_flowing = tty,
      data_listener = tty, exit_listener = tty, close_listener = tty,
      close_pending = False, settled = None, sent = []\<rparr>"

text \<open>
  \<^verbatim>\<open>waitForBridgeWithCancel\<close> up to the point where it waits: the result at once when no
  port could be bound, the armed wait otherwise.
\<close>

definition waitForBridgeWithCancel :: "(nat \<Rightarrow> bool) \<Rightarrow> bool \<Rightarrow> BridgeResult + bridge" where
  "waitForBridgeWithCancel can_listen tty =
     (case firstBound can_listen BRIDGE_PORTS of
        None \<Rightarrow> Inl Connected
      | Some p \<Rightarrow> Inr (armed tty p))"

definition restoreStdin :: "bridge \<Rightarrow> bridge" where
  "restoreStdin s =
     (if is_tty s \<and> stdin_raw s then s\<lparr>stdin_raw := False, stdin_flowing := False\<rparr> else s)"

text \<open>
  \<^verbatim>\<open>server.close()\<close> stops the listening at once and leaves open a connection already
  accepted on which a request is under way (an idle one is kept or ended, depending on
  the version of the runtime: its end is the event \<open>Disconnect\<close> below); the server's
  \<^verbatim>\<open>close\<close> event comes when they have all ended. The upgrade handler is never
  removed.
\<close>

definition cleanup :: "bridge \<Rightarrow> bridge" where
  "cleanup s =
     (if resolved s then s
      else (restoreStdin
              (s\<lparr>resolved := True, spinner_on := False, timer_armed := False,
                 listening := False, close_pending := True\<rparr>))\<lparr>exit_listener := False\<rparr>)"

text \<open>\<^verbatim>\<open>resolve(r)\<close>: a promise keeps the first value it is resolved with.\<close>

definition resolve :: "BridgeResult \<Rightarrow> bridge \<Rightarrow> bridge" where
  "resolve r s = (case settled s of None \<Rightarrow> s\<lparr>settled := Some r\<rparr> | Some r' \<Rightarrow> s)"

text \<open>
  What the event loop may do: run a spinner tick, the timeout, the input handler on a
  chunk of input, accept a connection, run the upgrade handler on a request that
  arrives on an accepted connection with its \<^verbatim>\<open>sec-websocket-key\<close> header (\<open>None\<close>: not
  a string), see an accepted connection ended by its peer, and emit the server's
  \<^verbatim>\<open>close\<close> event.
\<close>

datatype event =
    Tick
  | TimerFired
  | StdinData string
  | Connect
  | Upgrade "string option"
  | Disconnect
  | ServerClose

definition escape :: string where
  "escape = [CHR 0x1B]"

text \<open>
  The effect of each: the body of the callback, where there is one. The upgrade handler
  answers a key that is a string, destroys the socket, which ends that connection,
  then cleans up and resolves.
\<close>

fun fire :: "event \<Rightarrow> bridge \<Rightarrow> bridge" where
  "fire Tick s = s\<lparr>frame := frame s + 1\<rparr>"
| "fire TimerFired s = resolve Timeout (cleanup (s\<lparr>timer_armed := False\<rparr>))"
| "fire (StdinData d) s =
     (if d = escape then resolve Cancelled (cleanup (s\<lparr>data_listener := False\<rparr>)) else s)"
| "fire Connect s = s\<lparr>accepted := accepted s + 1\<rparr>"
| "fire (Upgrade key) s =
     resolve Connected
       (cleanup ((case key of None \<Rightarrow> s | Some k \<Rightarrow> s\<lparr>sent := sent s @ [upgradeResponse k]\<rparr>)
                 \<lparr>accepted := accepted s - 1\<rparr>))"
| "fire Disconnect s = s\<lparr>accepted := accepted s - 1\<rparr>"
| "fire ServerClose s =
     s\<lparr>close_pending := False,
       data_listener := (if close_listener s then False else data_listener s)\<rparr>"









section \<open>Properties of the merge\<close>

lemma index_key_0: "index_key 0 = ''0''"
  by (simp add: index_key.simps digit_char_def)

lemma own_props_falsy: "\<not> truthy u \<Longrightarrow> own_props u = []"
  by (cases u) auto

lemma mergeServerConfig_obj:
  "mergeServerConfig (JObj x) t m =
     Inr (JObj (AList.update ''mcpServers''
                 (JObj (AList.update ''figma-console'' (serverEntry t m) (parent_entries x))) x))"
  by (auto simp: mergeServerConfig_def get_prop_def parent_entries_def Let_def own_props_falsy
           split: option.splits)

lemma get_prop_nonnull: "v \<noteq> JNull \<Longrightarrow> get_prop v k = Inr (opt_prop (Some v) k)"
  by (cases v) (auto simp: get_prop_def)

text \<open>
  Claim C2. Merging into a config mapping \<open>x\<close> succeeds and gives a mapping in which
  every top-level key other than \<^verbatim>\<open>mcpServers\<close> has the value it has in \<open>x\<close>, whose
  \<^verbatim>\<open>mcpServers\<close> is a mapping in which every key other than \<^verbatim>\<open>figma-console\<close> has
  the value it has under \<^verbatim>\<open>mcpServers\<close> of \<open>x\<close>, and in which \<^verbatim>\<open>figma-console\<close> is
  the freshly built entry.
\<close>

theorem merge_preserves_foreign_keys:
  "\<exists>top coll.
     mergeServerConfig (JObj x) t m = Inr (JObj top)
     \<and> (\<forall>k. k \<noteq> ''mcpServers'' \<longrightarrow> map_of top k = map_of x k)
     \<and> map_of top ''mcpServers'' = Some (JObj coll)
     \<and> (\<forall>k. k \<noteq> ''figma-console'' \<longrightarrow> map_of coll k = map_of (parent_entries x) k)
     \<and> map_of coll ''figma-console'' = Some (serverEntry t m)"
  by (simp add: mergeServerConfig_obj update_conv')

theorem merge_preserves_foreign_keys_witness:
  "\<exists>top coll.
     mergeServerConfig
       (JObj [(''theme'', JStr ''dark''),
              (''mcpServers'', JObj [(''github'', JObj [(''command'', JStr ''gh-mcp'')])])])
       (JStr ''figd_abc'') Npx = Inr (JObj top)
     \<and> map_of top ''theme'' = Some (JStr ''dark'')
     \<and> map_of top ''mcpServers'' = Some (JObj coll)
     \<and> map_of coll ''github'' = Some (JObj [(''command'', JStr ''gh-mcp'')])
     \<and> map_of coll ''figma-console'' = Some (serverEntry (JStr ''figd_abc'') Npx)"
  using merge_preserves_foreign_keys
          [of "[(''theme'', JStr ''dark''),
                (''mcpServers'', JObj [(''github'', JObj [(''command'', JStr ''gh-mcp'')])])]"
              "JStr ''figd_abc''" Npx]
  by (auto simp: parent_entries_def)

text \<open>
  Claim C4. Merging is idempotent: on a config mapping the merge succeeds, and merging
  its result again with the same token and method gives that result back. The merge is
  a function of its three arguments alone: it neither reads nor changes the environment.
\<close>

theorem merge_idempotent:
  "\<exists>y. mergeServerConfig (JObj x) t m = Inr y \<and> mergeServerConfig y t m = Inr y"
  by (simp add: mergeServerConfig_obj parent_entries_def update_conv')

section \<open>Properties of the install-method inference\<close>

lemma inferAfterMerge_truthy:
  "m = Npx \<or> (\<exists>v. truthy v \<and> m = Local v) \<Longrightarrow> inferAfterMerge x t m = Inr m"
  by (auto simp: inferAfterMerge_def mergeServerConfig_obj detectInstallMethodFrom_def
        get_prop_def update_conv' serverEntry_def getServerCommand_def index_key_0)

lemma map_of_reparse:
  "map_of (map (map_prod id reparse) kvs) k = map_option reparse (map_of kvs k)"
  by (induction kvs) auto

lemma detect_reparse_merge:
  assumes "m = Npx \<or> (\<exists>s. s \<noteq> [] \<and> m = Local (JStr s))"
    and "mergeServerConfig (JObj x) t m = Inr y"
  shows "detectInstallMethodFrom (reparse y) = Inr m"
  using assms
  by (auto simp: mergeServerConfig_obj detectInstallMethodFrom_def get_prop_def map_of_reparse
        update_conv' serverEntry_def getServerCommand_def index_key_0)

text \<open>
  Claim C3, as stated, fails: a local method with the empty path is written as
  \<^verbatim>\<open>command: 'node', args: ['']\<close>, and the inference, which tests \<^verbatim>\<open>args[0]\<close> for
  truthiness, answers on-demand.
\<close>

theorem infer_merge_empty_path_counterexample:
  "inferAfterMerge [] (JStr ''figd_abc'') (Local (JStr [])) = Inr Npx
   \<and> inferAfterMerge [] (JStr ''figd_abc'') (Local (JStr [])) \<noteq> Inr (Local (JStr []))"
  by (simp add: inferAfterMerge_def mergeServerConfig_obj detectInstallMethodFrom_def
        get_prop_def index_key_0 serverEntry_def getServerCommand_def parent_entries_def)

text \<open>
  Claim C3, amended. For the on-demand method and for every local method with a
  non-empty path: inferring the method from the config produced by the merge gives the
  method back, and so does inferring it from the file the merged config was written to.
\<close>

theorem infer_merge_roundtrip:
  assumes "m = Npx \<or> (\<exists>s. s \<noteq> [] \<and> m = Local (JStr s))"
    and "\<not> write_fails w p"
  shows "inferAfterMerge x t m = Inr m
     \<and> (\<exists>y w'. mergeServerConfig (JObj x) t m = Inr y
            \<and> writeJsonConfig p y w = Inr w'
            \<and> detectInstallMethodFromConfig w' p = Inr m)"
proof -
  from assms(1) have "m = Npx \<or> (\<exists>v. truthy v \<and> m = Local v)"
    by auto
  then have rt: "inferAfterMerge x t m = Inr m"
    by (rule inferAfterMerge_truthy)
  then obtain y where y: "mergeServerConfig (JObj x) t m = Inr y"
    and d: "detectInstallMethodFrom y = Inr m"
    by (auto simp: inferAfterMerge_def split: sum.splits)
  from assms(2)
  have "writeJsonConfig p y w = Inr (w\<lparr>files := (files w)(p \<mapsto> Parsed (reparse y))\<rparr>)"
    by (simp add: writeJsonConfig_def)
  moreover
  have "detectInstallMethodFromConfig (w\<lparr>files := (files w)(p \<mapsto> Parsed (reparse y))\<rparr>) p
          = Inr m"
    using detect_reparse_merge [OF assms(1) y]
    by (simp add: detectInstallMethodFromConfig_def readJsonConfig_def)
  ultimately show ?thesis
    using rt y by blast
qed

theorem infer_merge_roundtrip_witness:
  "inferAfterMerge [(''theme'', JStr ''dark'')] (JStr ''figd_abc'')
       (Local (JStr ''/home/u/figma-console-mcp/dist/local.js''))
     = Inr (Local (JStr ''/home/u/figma-console-mcp/dist/local.js''))
   \<and> (\<exists>y w'. mergeServerConfig (JObj [(''theme'', JStr ''dark'')]) (JStr ''figd_abc'')
                 (Local (JStr ''/home/u/figma-console-mcp/dist/local.js'')) = Inr y
          \<and> writeJsonConfig ''/home/u/.cursor/mcp.json'' y world0 = Inr w'
          \<and> detectInstallMethodFromConfig w' ''/home/u/.cursor/mcp.json''
              = Inr (Local (JStr ''/home/u/figma-console-mcp/dist/local.js'')))"
  using infer_merge_roundtrip
          [of "Local (JStr ''/home/u/figma-console-mcp/dist/local.js'')" world0
              "''/home/u/.cursor/mcp.json''" "[(''theme'', JStr ''dark'')]" "JStr ''figd_abc''"]
  by (simp add: world0_def)

lemma detectInstallMethodFrom_nonnull:
  "config \<noteq> JNull \<Longrightarrow>
   detectInstallMethodFrom config =
     Inr (case opt_prop (opt_prop (reservedEntry config) ''args'') ''0'' of
            Some a \<Rightarrow>
              if opt_prop (reservedEntry config) ''command'' = Some (JStr ''node'') \<and> truthy a
              then Local a else Npx
          | None \<Rightarrow> Npx)"
  by (auto simp: detectInstallMethodFrom_def get_prop_nonnull reservedEntry_def index_key_0
        Let_def split: option.splits)

lemma detectInstallMethodFrom_empty: "detectInstallMethodFrom (JObj []) = Inr Npx"
  by (simp add: detectInstallMethodFrom_def get_prop_def)

text \<open>
  Claim C10, as stated, fails twice. A config file whose text is \<^verbatim>\<open>null\<close> parses, and
  reading \<^verbatim>\<open>config.mcpServers\<close> then throws. An entry with \<^verbatim>\<open>command: 'node'\<close> and
  \<^verbatim>\<open>args: [5]\<close> gives a local method whose path is the number, not a string.
\<close>

theorem detect_null_and_number_counterexample:
  "detectInstallMethodFromConfig
       (world0\<lparr>files := [''/c.json'' \<mapsto> Parsed JNull]\<rparr>) ''/c.json'' = Inl TypeError
   \<and> detectInstallMethodFromConfig
       (world0\<lparr>files := [''/c.json'' \<mapsto> Parsed (JObj [(''mcpServers'',
           JObj [(''figma-console'',
             JObj [(''command'', JStr ''node''), (''args'', JArr [JNum 5])])])])]\<rparr>) ''/c.json''
       = Inr (Local (JNum 5))"
  by (simp add: detectInstallMethodFromConfig_def readJsonConfig_def world0_def
        detectInstallMethodFrom_def get_prop_def index_key_0)

text \<open>
  Claim C10, amended. Whenever the file does not parse to \<^verbatim>\<open>null\<close> (it may be missing
  or malformed), the inference returns: the local method with path \<^verbatim>\<open>args[0]\<close> when the
  reserved entry's command is the string \<^verbatim>\<open>node\<close> and \<^verbatim>\<open>args[0]\<close> is truthy, and the
  on-demand method in every other case; for a missing or malformed file it is the
  on-demand method.
\<close>

theorem detect_total_on_nonnull:
  "(readJsonConfig w p \<noteq> JNull \<longrightarrow>
      detectInstallMethodFromConfig w p =
        Inr (case opt_prop (opt_prop (reservedEntry (readJsonConfig w p)) ''args'') ''0'' of
               Some a \<Rightarrow>
                 if opt_prop (reservedEntry (readJsonConfig w p)) ''command'' = Some (JStr ''node'')
                    \<and> truthy a
                 then Local a else Npx
             | None \<Rightarrow> Npx))
   \<and> (files w p = None \<or> files w p = Some Unparsable \<longrightarrow>
        detectInstallMethodFromConfig w p = Inr Npx)"
proof (intro conjI impI)
  assume "readJsonConfig w p \<noteq> JNull"
  then show "detectInstallMethodFromConfig w p =
        Inr (case opt_prop (opt_prop (reservedEntry (readJsonConfig w p)) ''args'') ''0'' of
               Some a \<Rightarrow>
                 if opt_prop (reservedEntry (readJsonConfig w p)) ''command'' = Some (JStr ''node'')
                    \<and> truthy a
                 then Local a else Npx
             | None \<Rightarrow> Npx)"
    unfolding detectInstallMethodFromConfig_def by (rule detectInstallMethodFrom_nonnull)
next
  assume "files w p = None \<or> files w p = Some Unparsable"
  then have "readJsonConfig w p = JObj []"
    by (auto simp: readJsonConfig_def)
  then show "detectInstallMethodFromConfig w p = Inr Npx"
    by (simp add: detectInstallMethodFromConfig_def detectInstallMethodFrom_empty)
qed

theorem detect_total_on_nonnull_witness:
  "detectInstallMethodFromConfig
       (world0\<lparr>files := [''/c.json'' \<mapsto> Parsed (JObj [(''mcpServers'',
           JObj [(''figma-console'',
             JObj [(''command'', JStr ''node''), (''args'', JArr [JStr ''/srv/local.js''])])])])]\<rparr>)
       ''/c.json'' = Inr (Local (JStr ''/srv/local.js''))
   \<and> detectInstallMethodFromConfig world0 ''/c.json'' = Inr Npx"
  using detect_total_on_nonnull
          [of "world0\<lparr>files := [''/c.json'' \<mapsto> Parsed (JObj [(''mcpServers'',
                 JObj [(''figma-console'',
                   JObj [(''command'', JStr ''node''), (''args'', JArr [JStr ''/srv/local.js''])])])])]\<rparr>"
              "''/c.json''"]
        detect_total_on_nonnull [of world0 "''/c.json''"]
  by (simp add: readJsonConfig_def reservedEntry_def world0_def index_key_0)

section \<open>Properties of scanning and removing\<close>

text \<open>
  Claim C8. Reading a config never throws (\<open>readJsonConfig\<close> has no error result),
  and a missing or malformed file reads as the empty mapping. Consequently the scan of a
  file-backed client whose config file is missing (or malformed) returns, without an
  error, a result with \<open>configured = False\<close> and the token \<^verbatim>\<open>null\<close>.
\<close>

theorem scan_without_config_file:
  "(files w p = None \<or> files w p = Some Unparsable \<longrightarrow> readJsonConfig w p = JObj [])
   \<and> (ident c \<noteq> ''claude-code'' \<and> configPath c = Some p
        \<and> (files w p = None \<or> files w p = Some Unparsable) \<longrightarrow>
        scanClient w c = Inr \<lparr>client = c, configured = False, token = JNull\<rparr>)"
  by (auto simp: readJsonConfig_def scanClient_def get_prop_def hasConfigPath_def)

theorem scan_without_config_file_witness:
  "readJsonConfig world0 ''/home/u/.cursor/mcp.json'' = JObj []
   \<and> scanClient world0
        \<lparr>name = ''Cursor'', ident = ''cursor'',
         configPath = Some ''/home/u/.cursor/mcp.json'', detected = True\<rparr>
     = Inr \<lparr>client = \<lparr>name = ''Cursor'', ident = ''cursor'',
                        configPath = Some ''/home/u/.cursor/mcp.json'', detected = True\<rparr>,
            configured = False, token = JNull\<rparr>"
  using scan_without_config_file
          [of world0 "''/home/u/.cursor/mcp.json''"
              "\<lparr>name = ''Cursor'', ident = ''cursor'',
                configPath = Some ''/home/u/.cursor/mcp.json'', detected = True\<rparr>"]
  by (simp add: world0_def)

lemma removeReservedEntry_absent:
  assumes "reservedEntry (JObj x) = None"
  shows "removeReservedEntry (JObj x) =
     Inr (JObj (if map_of x ''mcpServers'' = None \<or> map_of x ''mcpServers'' = Some JNull
                then AList.update ''mcpServers'' (JObj []) x else x))"
proof (cases "map_of x ''mcpServers''")
  case None
  then show ?thesis by (simp add: removeReservedEntry_def get_prop_def)
next
  case (Some u)
  show ?thesis
  proof (cases u)
    case (JObj ms)
    with Some assms have "map_of ms ''figma-console'' = None"
      by (simp add: reservedEntry_def)
    then have "AList.delete ''figma-console'' ms = ms"
      by (simp add: map_of_eq_None_iff)
    with Some JObj show ?thesis
      by (simp add: removeReservedEntry_def get_prop_def update_triv)
  qed (use Some in \<open>simp_all add: removeReservedEntry_def get_prop_def update_triv\<close>)
qed

text \<open>
  Claim C7, as stated, fails three times, each time on a config without the reserved
  entry. Removing from a config that has no \<^verbatim>\<open>mcpServers\<close> writes it back with an empty
  \<^verbatim>\<open>mcpServers\<close> added. Removing where the file cannot be written raises the write
  error. Removing from a config that holds an infinity (the literal \<^verbatim>\<open>1e400\<close>) writes
  \<^verbatim>\<open>null\<close> in its place.
\<close>

theorem remove_not_identity_counterexample:
  "reservedEntry (JObj [(''theme'', JStr ''dark'')]) = None
   \<and> removed (cursor_holding (JObj [(''theme'', JStr ''dark'')]))
       = (None, JObj [(''theme'', JStr ''dark''), (''mcpServers'', JObj [])])
   \<and> reservedEntry (JObj [(''mcpServers'', JObj [])]) = None
   \<and> removed (unwritable (cursor_holding (JObj [(''mcpServers'', JObj [])])))
       = (Some WriteError, JObj [(''mcpServers'', JObj [])])
   \<and> reservedEntry (JObj [(''limit'', JInfinity), (''mcpServers'', JObj [])]) = None
   \<and> removed (cursor_holding (JObj [(''limit'', JInfinity), (''mcpServers'', JObj [])]))
       = (None, JObj [(''limit'', JNull), (''mcpServers'', JObj [])])"
  by (simp add: reservedEntry_def removed_def cursor_holding_def unwritable_def cursor_client_def
        world0_def removeOne_def hasConfigPath_def readJsonConfig_def writeJsonConfig_def
        removeReservedEntry_def get_prop_def)

text \<open>
  Claim C7, amended. For every config mapping \<open>x\<close> in which the reserved entry is absent,
  removing from a file-backed client whose config reads as \<open>x\<close> raises the write error
  when the file cannot be written and no error otherwise, and then changes nothing but
  that file. What the file then reads as is \<open>x\<close> itself when \<open>x\<close> has a value other than
  \<^verbatim>\<open>null\<close> under \<^verbatim>\<open>mcpServers\<close>, and \<open>x\<close> with \<^verbatim>\<open>mcpServers\<close> set to the empty mapping
  otherwise, in both cases as serialised: an infinity reads back as \<^verbatim>\<open>null\<close> and minus
  zero as \<^verbatim>\<open>0\<close>. So the output is identical to the input when the file can be written,
  \<open>x\<close> has a value other than \<^verbatim>\<open>null\<close> under \<^verbatim>\<open>mcpServers\<close>, and \<open>x\<close> is read back
  from its serialisation unchanged.
\<close>

theorem remove_absent_entry:
  assumes "reservedEntry (JObj x) = None"
    and "i \<noteq> ''claude-code''" and "configPath c = Some p" and "p \<noteq> []"
    and "readJsonConfig w p = JObj x"
  shows "removeOne i c w =
           (if write_fails w p then (Some WriteError, w)
            else (None, w\<lparr>files := (files w)(p \<mapsto> Parsed (reparse (JObj
                    (if map_of x ''mcpServers'' = None \<or> map_of x ''mcpServers'' = Some JNull
                     then AList.update ''mcpServers'' (JObj []) x else x))))\<rparr>))
     \<and> (\<not> write_fails w p \<and> reparse (JObj x) = JObj x
          \<and> map_of x ''mcpServers'' \<noteq> None \<and> map_of x ''mcpServers'' \<noteq> Some JNull \<longrightarrow>
          fst (removeOne i c w) = None
          \<and> readJsonConfig (snd (removeOne i c w)) p = JObj x)"
proof -
  have r: "removeOne i c w =
           (if write_fails w p then (Some WriteError, w)
            else (None, w\<lparr>files := (files w)(p \<mapsto> Parsed (reparse (JObj
                    (if map_of x ''mcpServers'' = None \<or> map_of x ''mcpServers'' = Some JNull
                     then AList.update ''mcpServers'' (JObj []) x else x))))\<rparr>))"
    using assms(2-) removeReservedEntry_absent [OF assms(1)]
    by (simp add: removeOne_def hasConfigPath_def writeJsonConfig_def)
  show ?thesis
    unfolding r by (auto simp: readJsonConfig_def)
qed

theorem remove_absent_entry_witness:
  "removed (cursor_holding (JObj [(''mcpServers'', JObj [(''github'', JStr ''gh'')])]))
     = (None, JObj [(''mcpServers'', JObj [(''github'', JStr ''gh'')])])
   \<and> removeOne ''cursor'' cursor_client
        (unwritable (cursor_holding (JObj [(''mcpServers'', JObj [(''github'', JStr ''gh'')])])))
     = (Some WriteError,
        unwritable (cursor_holding (JObj [(''mcpServers'', JObj [(''github'', JStr ''gh'')])])))"
proof -
  let ?x = "[(''mcpServers'', JObj [(''github'', JStr ''gh'')])]"
  let ?p = "''/home/u/.cursor/mcp.json''"
  have e: "reservedEntry (JObj ?x) = None"
    by (simp add: reservedEntry_def)
  have c: "''cursor'' \<noteq> ''claude-code''" "configPath cursor_client = Some ?p" "?p \<noteq> []"
    by (simp_all add: cursor_client_def)
  have r1: "readJsonConfig (cursor_holding (JObj ?x)) ?p = JObj ?x"
    by (simp add: cursor_holding_def readJsonConfig_def world0_def)
  have r2: "readJsonConfig (unwritable (cursor_holding (JObj ?x))) ?p = JObj ?x"
    by (simp add: unwritable_def cursor_holding_def readJsonConfig_def world0_def)
  have w1: "\<not> write_fails (cursor_holding (JObj ?x)) ?p"
    by (simp add: cursor_holding_def world0_def)
  have w2: "write_fails (unwritable (cursor_holding (JObj ?x))) ?p"
    by (simp add: unwritable_def)
  have side: "\<not> write_fails (cursor_holding (JObj ?x)) ?p \<and> reparse (JObj ?x) = JObj ?x
      \<and> map_of ?x ''mcpServers'' \<noteq> None \<and> map_of ?x ''mcpServers'' \<noteq> Some JNull"
    using w1 by simp
  have "fst (removeOne ''cursor'' cursor_client (cursor_holding (JObj ?x))) = None
      \<and> readJsonConfig (snd (removeOne ''cursor'' cursor_client (cursor_holding (JObj ?x)))) ?p
          = JObj ?x"
    by (rule remove_absent_entry [OF e c r1, THEN conjunct2, rule_format, OF side])
  then have a: "removed (cursor_holding (JObj ?x)) = (None, JObj ?x)"
    by (simp add: removed_def cursor_holding_def world0_def)
  from remove_absent_entry [OF e c r2] w2
  have b: "removeOne ''cursor'' cursor_client (unwritable (cursor_holding (JObj ?x)))
             = (Some WriteError, unwritable (cursor_holding (JObj ?x)))"
    by simp
  from a b show ?thesis by simp
qed

section \<open>Failure isolation in the batch operations\<close>

























section \<open>Properties of the bridge verifier\<close>

lemma accept_sample_key: "accept rfc6455_sample_key = ''dxBSPk62+Dss7jrffkSJhSzPSEY=''"
  by code_simp

lemma rfc6455_sample: "sha1_base64 (rfc6455_sample_key @ rfc6455_guid) = rfc6455_sample_accept"
  by code_simp

text \<open>
  Claim C9. The handler does answer a key \<open>k\<close> with the base64 of the SHA-1 of \<open>k\<close>
  followed by the constant in the source. But that constant is not the identifier of
  the WebSocket protocol: for the sample key of RFC 6455 the code computes
  \<^verbatim>\<open>dxBSPk62+Dss7jrffkSJhSzPSEY=\<close>, not the published \<^verbatim>\<open>s3pPLMBiTxaQ9kYGzzhZRbK+xOo=\<close>,
  which the same computation gives with the identifier of the RFC.
\<close>

theorem accept_differs_from_reference:
  "accept k = base64 (sha1 (utf8 (k @ ''258EAFA5-E914-47DA-95CA-5AB5E34B13E5'')))
   \<and> sent (fire (Upgrade (Some k)) (armed tty p)) = [upgradeResponse k]
   \<and> accept rfc6455_sample_key = ''dxBSPk62+Dss7jrffkSJhSzPSEY=''
   \<and> accept rfc6455_sample_key \<noteq> rfc6455_sample_accept
   \<and> sha1_base64 (rfc6455_sample_key @ rfc6455_guid) = rfc6455_sample_accept"
proof -
  have "sent (fire (Upgrade (Some k)) (armed tty p)) = [upgradeResponse k]"
    by (simp add: armed_def resolve_def cleanup_def restoreStdin_def)
  moreover have "accept rfc6455_sample_key \<noteq> rfc6455_sample_accept"
    by (simp add: accept_sample_key rfc6455_sample_accept_def)
  ultimately show ?thesis
    using accept_sample_key rfc6455_sample by (simp add: accept_def sha1_base64_def)
qed

lemma BRIDGE_PORTS_sequential: "BRIDGE_PORTS = map (\<lambda>i. 9222 + i) [1..<11]"
  by (simp add: BRIDGE_PORTS_def upt_rec)

lemma BRIDGE_PORTS_ascending: "sorted_wrt (<) BRIDGE_PORTS"
  by (simp add: BRIDGE_PORTS_def)

lemma firstBound_None: "firstBound f ps = None \<longleftrightarrow> (\<forall>p\<in>set ps. \<not> f p)"
  by (induction ps) auto

lemma firstBound_Some:
  "firstBound f ps = Some p \<Longrightarrow> \<exists>pre post. ps = pre @ p # post \<and> f p \<and> (\<forall>q\<in>set pre. \<not> f q)"
proof (induction ps)
  case Nil
  then show ?case by simp
next
  case (Cons a ps)
  show ?case
  proof (cases "f a")
    case True
    with Cons.prems have "a = p" by simp
    with True show ?thesis by (intro exI[of _ "[]"] exI[of _ ps]) simp
  next
    case False
    with Cons obtain pre post where "ps = pre @ p # post" "f p" "\<forall>q\<in>set pre. \<not> f q"
      by auto
    with False show ?thesis by (intro exI[of _ "a # pre"] exI[of _ post]) simp
  qed
qed

lemma firstBound_least:
  assumes "sorted_wrt (<) ps" and "firstBound f ps = Some p"
  shows "p \<in> set ps \<and> f p \<and> (\<forall>q\<in>set ps. q < p \<longrightarrow> \<not> f q)"
proof -
  from firstBound_Some [OF assms(2)] obtain pre post
    where ps: "ps = pre @ p # post" and fp: "f p" and pre: "\<forall>q\<in>set pre. \<not> f q"
    by blast
  from assms(1) ps have "\<forall>q\<in>set (p # post). p \<le> q"
    by (auto simp: sorted_wrt_append less_imp_le)
  with ps pre fp show ?thesis by auto
qed

text \<open>
  Claim C6. The candidates are the ten ports 9223 to 9232, one after the other from just
  above the debug port 9222, in ascending order. The verifier binds the lowest candidate
  it can listen on, and it answers \<open>Connected\<close> at once, with no wait and so no listener
  of its own, exactly when it can listen on none of them.
\<close>

theorem all_ports_bound_connected:
  "length BRIDGE_PORTS = 10
   \<and> BRIDGE_PORTS = map (\<lambda>i. 9222 + i) [1..<11]
   \<and> sorted_wrt (<) BRIDGE_PORTS
   \<and> ((\<forall>p\<in>set BRIDGE_PORTS. \<not> can_listen p) \<longleftrightarrow>
        waitForBridgeWithCancel can_listen tty = Inl Connected)
   \<and> (\<forall>p. waitForBridgeWithCancel can_listen tty = Inr (armed tty p) \<longrightarrow>
          p \<in> set BRIDGE_PORTS \<and> can_listen p
          \<and> (\<forall>q\<in>set BRIDGE_PORTS. q < p \<longrightarrow> \<not> can_listen q))
   \<and> (\<forall>s. waitForBridgeWithCancel can_listen tty = Inr s \<longrightarrow>
          (\<exists>p\<in>set BRIDGE_PORTS. s = armed tty p))"
proof (intro conjI allI impI)
  show "length BRIDGE_PORTS = 10" by (simp add: BRIDGE_PORTS_def)
  show "BRIDGE_PORTS = map (\<lambda>i. 9222 + i) [1..<11]" by (rule BRIDGE_PORTS_sequential)
  show "sorted_wrt (<) BRIDGE_PORTS" by (rule BRIDGE_PORTS_ascending)
  show "(\<forall>p\<in>set BRIDGE_PORTS. \<not> can_listen p) \<longleftrightarrow>
        waitForBridgeWithCancel can_listen tty = Inl Connected"
    using firstBound_None [of can_listen BRIDGE_PORTS]
    by (auto simp: waitForBridgeWithCancel_def split: option.splits)
next
  fix p assume a: "waitForBridgeWithCancel can_listen tty = Inr (armed tty p)"
  then have "firstBound can_listen BRIDGE_PORTS = Some p"
    by (auto simp: waitForBridgeWithCancel_def armed_def split: option.splits)
  from firstBound_least [OF BRIDGE_PORTS_ascending this]
  show "p \<in> set BRIDGE_PORTS" "can_listen p"
    "\<forall>q\<in>set BRIDGE_PORTS. q < p \<longrightarrow> \<not> can_listen q"
    by simp_all
next
  fix s assume "waitForBridgeWithCancel can_listen tty = Inr s"
  then obtain p where p: "firstBound can_listen BRIDGE_PORTS = Some p" and s: "s = armed tty p"
    by (auto simp: waitForBridgeWithCancel_def split: option.splits)
  from firstBound_least [OF BRIDGE_PORTS_ascending p] s
  show "\<exists>p\<in>set BRIDGE_PORTS. s = armed tty p" by blast
qed

theorem all_ports_bound_connected_witness:
  "waitForBridgeWithCancel (\<lambda>p. False) True = Inl Connected
   \<and> waitForBridgeWithCancel (\<lambda>p. 9225 \<le> p) True = Inr (armed True 9225)
   \<and> 9225 \<in> set BRIDGE_PORTS"
proof -
  have "\<forall>p\<in>set BRIDGE_PORTS. \<not> (\<lambda>p. False) p"
    by simp
  with all_ports_bound_connected [of "\<lambda>p. False" True]
  have a: "waitForBridgeWithCancel (\<lambda>p. False) True = Inl Connected"
    by blast
  have b: "waitForBridgeWithCancel (\<lambda>p. 9225 \<le> p) True = Inr (armed True 9225)"
    by (simp add: waitForBridgeWithCancel_def BRIDGE_PORTS_def)
  with all_ports_bound_connected [of "\<lambda>p. 9225 \<le> p" True]
  have "9225 \<in> set BRIDGE_PORTS"
    by blast
  with a b show ?thesis by simp
qed





























end
